theory Spec2Isabelle
  imports Complex_Main
begin

section \<open>Data exchanged with the outside world\<close>

text \<open>
  The program \<^verbatim>\<open>main.go\<close> is a thin gateway between four collaborators that it does not
  implement: the OpenAI chat service, the PostgreSQL table \<^verbatim>\<open>documents\<close>, the bleve index
  engine and Go's \<^verbatim>\<open>net/http\<close> server. The model keeps the program's own control flow
  and makes every answer of a collaborator an explicit input (the record \<open>env\<close> below);
  a \<^verbatim>\<open>string\<close> is a list of bytes.
\<close>

datatype json =
    JNull
  | JBool bool
  | JNumber string
  | JString string
  | JArray "json list"
  | JObject "(string \<times> json) list"

text \<open>
  A byte string as \<^verbatim>\<open>encoding/json\<close> reads it. For the request body, read by
  \<^verbatim>\<open>json.Decoder.Decode\<close>, it is the first JSON value of the stream (what follows that
  value is never read), or the decoder's error when the stream does not start with a
  complete value (empty body, syntax error inside the first value). For the chat reply,
  read by \<^verbatim>\<open>json.Unmarshal\<close>, it is the one value the whole text holds, or the error.
\<close>

datatype json_text = Malformed string | Wellformed json

text \<open>
  A Go \<^verbatim>\<open>error\<close>: a message, the type error of \<^verbatim>\<open>encoding/json\<close> for a value that does
  not fit its target, or an error wrapped by \<^verbatim>\<open>fmt.Errorf\<close> or \<^verbatim>\<open>fmt.Sprintf\<close> behind a
  prefix.
\<close>

datatype goerr = Msg string | UnmarshalTypeError json | Wrapped string goerr

record hit =
  hit_id :: string
  hit_score :: real

datatype search_result = SearchResult "hit list"

text \<open>
  What is left on the wire. \<open>RedirectTo p q\<close> stands for the \<^verbatim>\<open>Location\<close> header (and, on
  a GET, the short HTML body) that \<^verbatim>\<open>net/http\<close> derives from the URL with path \<open>p\<close> and raw
  query \<open>q\<close>.
\<close>

datatype body =
    Bytes string
  | ErrorLine goerr
  | SearchResultJson search_result
  | RedirectTo string string

record response =
  status :: nat
  content_type :: "string option"
  payload :: body

datatype outcome = Replied response | Panicked

text \<open>A failed call: an \<^verbatim>\<open>error\<close> value that was returned, or a run-time panic.\<close>

datatype failure = Error goerr | Panic

text \<open>
  A request: the method; the path of the request target as it was sent, percent-escapes
  kept (\<^verbatim>\<open>r.URL.EscapedPath()\<close>), or \<^verbatim>\<open>*\<close> when the request target is the asterisk; the
  query parameters \<^verbatim>\<open>r.URL.Query()\<close> in the order they appear; the raw query string; and
  the body as the JSON decoder reads it.
\<close>

record request =
  rmethod :: string
  rpath :: string
  rquery :: "(string \<times> string) list"
  rrawquery :: string
  rbody :: json_text

text \<open>
  The answers of the collaborators while one piece of code runs: the chat completion for a
  prompt (an error, or the message contents of the returned choices), the result of
  \<^verbatim>\<open>INSERT ... RETURNING id\<close>, of \<^verbatim>\<open>index.Index\<close>, of \<^verbatim>\<open>index.Search\<close> on the
  documents the engine holds, and of encoding a search result.
\<close>

record env =
  chat :: "string \<Rightarrow> string + json_text list"
  db_insert :: "string \<Rightarrow> string + int"
  index_write :: "string \<Rightarrow> string \<Rightarrow> string option"
  index_search :: "(string \<rightharpoonup> string) \<Rightarrow> string \<Rightarrow> string + search_result"
  encode_error :: "search_result \<Rightarrow> string option"

text \<open>
  The two process-wide handles: the rows of the table behind \<^verbatim>\<open>db\<close>, in insertion
  order, and the global \<^verbatim>\<open>index\<close> (\<open>None\<close> is Go's \<^verbatim>\<open>nil\<close>; otherwise the content the
  engine accepted for each document identifier).
\<close>

record state =
  documents :: "(int \<times> string) list"
  index :: "(string \<rightharpoonup> string) option"

text \<open>The calls a piece of code makes, in the order it makes them.\<close>

datatype event =
    EvChat string
  | EvStoreInsert string "string + int"
  | EvIndexWrite string string "string option"
  | EvSearch string
  | EvRespond nat
  | EvIndexCreated
  | EvIndexOpened
  | EvQuery
  | EvListen

record result =
  reply :: outcome
  effects :: "event list"
  post :: state

section \<open>Library functions the program calls\<close>

text \<open>\<^verbatim>\<open>strconv.Itoa\<close>: the decimal digits of an integer, with a minus sign when negative.\<close>

fun digits :: "nat \<Rightarrow> string" where
  "digits n =
     (if n < 10 then [''0123456789'' ! n]
      else digits (n div 10) @ [''0123456789'' ! (n mod 10)])"

declare digits.simps [simp del]

definition Itoa :: "int \<Rightarrow> string" where
  "Itoa i = (if i < 0 then CHR ''-'' # digits (nat (- i)) else digits (nat i))"

text \<open>\<^verbatim>\<open>fmt.Sprintf("%s", tokens)\<close> for a slice of strings: \<^verbatim>\<open>[a b c]\<close>.\<close>

fun join_tokens :: "string list \<Rightarrow> string" where
  "join_tokens [] = []"
| "join_tokens [t] = t"
| "join_tokens (t # u # ts) = t @ '' '' @ join_tokens (u # ts)"

definition sprint_tokens :: "string list \<Rightarrow> string" where
  "sprint_tokens tokens = ''['' @ join_tokens tokens @ '']''"

text \<open>
  \<^verbatim>\<open>http.Error\<close>: the status, a plain-text content type and the message on a line of
  its own.
\<close>

definition http_error :: "goerr \<Rightarrow> nat \<Rightarrow> response" where
  "http_error msg code =
     \<lparr>status = code, content_type = Some ''text/plain; charset=utf-8'',
      payload = ErrorLine msg\<rparr>"

text \<open>\<^verbatim>\<open>r.URL.Query().Get(key)\<close>: the first value given for the key, or the empty string.\<close>

fun query_get :: "(string \<times> string) list \<Rightarrow> string \<Rightarrow> string" where
  "query_get [] key = []"
| "query_get ((k, v) # kvs) key = (if k = key then v else query_get kvs key)"

text \<open>
  Decoding into \<^verbatim>\<open>struct { Content string `json:"content"` }\<close>. A key names the field
  when it equals \<^verbatim>\<open>content\<close> up to letter case; a string sets the field, \<^verbatim>\<open>null\<close> leaves it,
  any other value is a type error (the earliest one is returned, decoding goes on);
  unknown keys are skipped; a missing key leaves the field at its zero value, the empty
  string.
\<close>

definition ascii_lower :: "char \<Rightarrow> char" where
  "ascii_lower c =
     (case map_of (zip ''ABCDEFGHIJKLMNOPQRSTUVWXYZ'' ''abcdefghijklmnopqrstuvwxyz'') c of
        Some l \<Rightarrow> l
      | None \<Rightarrow> c)"

definition names_content :: "string \<Rightarrow> bool" where
  "names_content k = (map ascii_lower k = ''content'')"

fun decode_fields ::
  "(string \<times> json) list \<Rightarrow> string \<Rightarrow> goerr option \<Rightarrow> string \<times> goerr option" where
  "decode_fields [] content err = (content, err)"
| "decode_fields ((k, v) # kvs) content err =
     (if names_content k then
        (case v of
           JString s \<Rightarrow> decode_fields kvs s err
         | JNull \<Rightarrow> decode_fields kvs content err
         | _ \<Rightarrow> decode_fields kvs content
                 (case err of None \<Rightarrow> Some (UnmarshalTypeError v) | Some x \<Rightarrow> Some x))
      else decode_fields kvs content err)"

definition decode_content :: "json_text \<Rightarrow> goerr + string" where
  "decode_content b =
     (case b of
        Malformed msg \<Rightarrow> Inl (Msg msg)
      | Wellformed JNull \<Rightarrow> Inr []
      | Wellformed (JObject kvs) \<Rightarrow>
          (case decode_fields kvs [] None of
             (content, None) \<Rightarrow> Inr content
           | (content, Some err) \<Rightarrow> Inl err)
      | Wellformed v \<Rightarrow> Inl (UnmarshalTypeError v))"

text \<open>
  \<^verbatim>\<open>json.Unmarshal\<close> into a \<^verbatim>\<open>[]string\<close>: \<^verbatim>\<open>null\<close> gives the nil slice, an array gives one
  string per element (\<^verbatim>\<open>null\<close> elements stay empty), anything else is a type error.
\<close>

fun unmarshal_elems :: "json list \<Rightarrow> string list \<times> goerr option" where
  "unmarshal_elems [] = ([], None)"
| "unmarshal_elems (v # vs) =
     (case unmarshal_elems vs of
        (ts, err) \<Rightarrow>
          (case v of
             JString s \<Rightarrow> (s # ts, err)
           | JNull \<Rightarrow> ([] # ts, err)
           | _ \<Rightarrow> ([] # ts, Some (UnmarshalTypeError v))))"

definition unmarshal_tokens :: "json_text \<Rightarrow> goerr + string list" where
  "unmarshal_tokens t =
     (case t of
        Malformed msg \<Rightarrow> Inl (Msg msg)
      | Wellformed JNull \<Rightarrow> Inr []
      | Wellformed (JArray vs) \<Rightarrow>
          (case unmarshal_elems vs of
             (ts, None) \<Rightarrow> Inr ts
           | (ts, Some err) \<Rightarrow> Inl err)
      | Wellformed v \<Rightarrow> Inl (UnmarshalTypeError v))"

section \<open>The normalizer\<close>

definition analysis_prompt :: "string \<Rightarrow> string" where
  \<open>analysis_prompt text =
     ''Please analyze the following text into its morphological components and return them as a JSON array of strings: "''
     @ text @ ''"''\<close>

text \<open>
  \<^verbatim>\<open>getMorphologicalAnalysis\<close>: one chat completion for the prompt; the first choice's
  content is parsed as a JSON array of strings and printed with \<^verbatim>\<open>%s\<close>. Reading
  \<^verbatim>\<open>resp.Choices[0]\<close> of an empty slice panics.
\<close>

definition getMorphologicalAnalysis :: "env \<Rightarrow> string \<Rightarrow> failure + string" where
  "getMorphologicalAnalysis e text =
     (case chat e (analysis_prompt text) of
        Inl msg \<Rightarrow> Inl (Error (Wrapped ''OpenAI API request failed: '' (Msg msg)))
      | Inr [] \<Rightarrow> Inl Panic
      | Inr (c # cs) \<Rightarrow>
          (case unmarshal_tokens c of
             Inl err \<Rightarrow> Inl (Error (Wrapped ''Failed to parse JSON response: '' err))
           | Inr tokens \<Rightarrow> Inr (sprint_tokens tokens)))"

section \<open>The request handlers\<close>

definition respond :: "state \<Rightarrow> event list \<Rightarrow> response \<Rightarrow> result" where
  "respond st evs r = \<lparr>reply = Replied r, effects = evs @ [EvRespond (status r)], post = st\<rparr>"

definition heartbeat_body :: string where
  \<open>heartbeat_body = ''{"status":"ok"}'' @ [CHR 0x0A]\<close>

text \<open>
  \<^verbatim>\<open>heartbeatHandler\<close> looks at nothing in the request: it sets the content type and
  encodes the map; the status is the implicit 200 and the encoder ends the value with a
  newline.
\<close>

definition heartbeatHandler :: "state \<Rightarrow> request \<Rightarrow> result" where
  "heartbeatHandler st r =
     respond st []
       \<lparr>status = 200, content_type = Some ''application/json'', payload = Bytes heartbeat_body\<rparr>"

text \<open>
  \<^verbatim>\<open>insertHandler\<close>: method check, decoding, normalization, store insert, index write,
  success response, in this order; every failure returns at once. A store insert that
  succeeded stays in the table whatever happens afterwards. Calling \<^verbatim>\<open>index.Index\<close> on a
  nil index panics.
\<close>

definition insertHandler :: "env \<Rightarrow> state \<Rightarrow> request \<Rightarrow> result" where
  "insertHandler e st r =
     (if rmethod r \<noteq> ''POST'' then respond st [] (http_error (Msg ''Invalid request method'') 405)
      else
        (case decode_content (rbody r) of
           Inl err \<Rightarrow> respond st [] (http_error (Msg ''Invalid request body'') 400)
         | Inr content \<Rightarrow>
             (case getMorphologicalAnalysis e content of
                Inl Panic \<Rightarrow>
                  \<lparr>reply = Panicked, effects = [EvChat (analysis_prompt content)], post = st\<rparr>
              | Inl (Error err) \<Rightarrow>
                  respond st [EvChat (analysis_prompt content)]
                    (http_error (Wrapped ''Failed to analyze text: '' err) 500)
              | Inr analysis \<Rightarrow>
                  (case db_insert e analysis of
                     Inl msg \<Rightarrow>
                       respond st
                         [EvChat (analysis_prompt content), EvStoreInsert analysis (Inl msg)]
                         (http_error (Wrapped ''Failed to insert data: '' (Msg msg)) 500)
                   | Inr docid \<Rightarrow>
                       (let st1 = st\<lparr>documents := documents st @ [(docid, analysis)]\<rparr>;
                            evs = [EvChat (analysis_prompt content),
                                   EvStoreInsert analysis (Inr docid)]
                        in case index st of
                             None \<Rightarrow> \<lparr>reply = Panicked, effects = evs, post = st1\<rparr>
                           | Some m \<Rightarrow>
                               (case index_write e (Itoa docid) analysis of
                                  Some msg \<Rightarrow>
                                    respond st1
                                      (evs @ [EvIndexWrite (Itoa docid) analysis (Some msg)])
                                      (http_error (Wrapped ''Failed to index data: '' (Msg msg)) 500)
                                | None \<Rightarrow>
                                    respond
                                      (st1\<lparr>index := Some (m(Itoa docid \<mapsto> analysis))\<rparr>)
                                      (evs @ [EvIndexWrite (Itoa docid) analysis None])
                                      \<lparr>status = 201, content_type = None,
                                       payload =
                                         Bytes (''Document inserted with ID: '' @ Itoa docid)\<rparr>))))))"

text \<open>
  \<^verbatim>\<open>searchHandler\<close>: the nil check on the index comes first, then the check of \<^verbatim>\<open>q\<close>; the
  engine's result is encoded as it is, the handler neither filters nor reorders it.
\<close>

definition searchHandler :: "env \<Rightarrow> state \<Rightarrow> request \<Rightarrow> result" where
  "searchHandler e st r =
     (case index st of
        None \<Rightarrow> respond st [] (http_error (Msg ''Index is not initialized'') 500)
      | Some m \<Rightarrow>
          (let queryParam = query_get (rquery r) ''q''
           in if queryParam = [] then
                respond st []
                  (http_error (Msg (''Missing query parameter '' @ [CHR 0x27] @ ''q'' @ [CHR 0x27])) 400)
              else
                (case index_search e m queryParam of
                   Inl msg \<Rightarrow>
                     respond st [EvSearch queryParam]
                       (http_error (Wrapped ''Search failed: '' (Msg msg)) 500)
                 | Inr res \<Rightarrow>
                     (case encode_error e res of
                        Some msg \<Rightarrow>
                          respond st [EvSearch queryParam]
                            (http_error (Wrapped ''Failed to encode response: '' (Msg msg)) 500)
                      | None \<Rightarrow>
                          respond st [EvSearch queryParam]
                            \<lparr>status = 200, content_type = Some ''application/json'',
                             payload = SearchResultJson res\<rparr>))))"

section \<open>Routing\<close>

text \<open>
  The three handlers are registered on the default \<^verbatim>\<open>ServeMux\<close> under \<^verbatim>\<open>/\<close>, \<^verbatim>\<open>/search\<close>
  and \<^verbatim>\<open>/insert\<close>; the image is built with Go 1.23. A request whose target is \<^verbatim>\<open>*\<close> never
  reaches a handler: the server answers \<^verbatim>\<open>OPTIONS *\<close> itself, the mux answers 400 to any
  other method. Otherwise the mux cleans the escaped path (repeated slashes, \<^verbatim>\<open>.\<close> and
  \<^verbatim>\<open>..\<close> elements go, a trailing slash stays) and redirects when that changes it; CONNECT
  requests are not cleaned, and a CONNECT with an empty path is redirected to the
  pattern \<^verbatim>\<open>/\<close>. Then the path is matched element by element, each element unescaped:
  \<^verbatim>\<open>/search\<close> and \<^verbatim>\<open>/insert\<close> match a path of that one element, \<^verbatim>\<open>/\<close> matches every path.
\<close>

fun split_slash :: "string \<Rightarrow> string list" where
  "split_slash [] = [[]]"
| "split_slash (c # cs) =
     (if c = CHR ''/'' then [] # split_slash cs
      else (case split_slash cs of [] \<Rightarrow> [[c]] | s # ss \<Rightarrow> (c # s) # ss))"

fun clean_segments :: "string list \<Rightarrow> string list \<Rightarrow> string list" where
  "clean_segments [] acc = acc"
| "clean_segments (s # ss) acc =
     (if s = [] \<or> s = ''.'' then clean_segments ss acc
      else if s = ''..'' then clean_segments ss (butlast acc)
      else clean_segments ss (acc @ [s]))"

fun rooted :: "string list \<Rightarrow> string" where
  "rooted [] = ''/''"
| "rooted [s] = CHR ''/'' # s"
| "rooted (s # t # ts) = CHR ''/'' # s @ rooted (t # ts)"

text \<open>\<^verbatim>\<open>path.Clean\<close> on a path that starts with a slash.\<close>

definition path_Clean :: "string \<Rightarrow> string" where
  "path_Clean p = rooted (clean_segments (split_slash p) [])"

definition cleanPath :: "string \<Rightarrow> string" where
  "cleanPath p =
     (if p = [] then ''/''
      else
        (let p1 = (if hd p \<noteq> CHR ''/'' then CHR ''/'' # p else p);
             np = path_Clean p1
         in if last p1 = CHR ''/'' \<and> np \<noteq> ''/'' then np @ ''/'' else np))"

text \<open>
  \<^verbatim>\<open>url.PathUnescape\<close>: every \<^verbatim>\<open>%XX\<close> becomes the byte it names; a \<^verbatim>\<open>%\<close> that is not
  followed by two hexadecimal digits is an error, and the mux then keeps the text as it
  is.
\<close>

definition unhex :: "char \<Rightarrow> nat option" where
  "unhex c =
     map_of (zip ''0123456789abcdefABCDEF''
       [0, 1, 2, 3, 4, 5, 6, 7, 8, 9, 10, 11, 12, 13, 14, 15, 10, 11, 12, 13, 14, 15]) c"

fun unescape :: "string \<Rightarrow> string option" where
  "unescape [] = Some []"
| "unescape (c # cs) =
     (if c = CHR ''%'' then
        (case cs of
           h # l # rest \<Rightarrow>
             (case (unhex h, unhex l) of
                (Some a, Some b) \<Rightarrow> map_option ((#) (char_of (16 * a + b))) (unescape rest)
              | _ \<Rightarrow> None)
         | _ \<Rightarrow> None)
      else map_option ((#) c) (unescape cs))"

definition pathUnescape :: "string \<Rightarrow> string" where
  "pathUnescape s = (case unescape s of None \<Rightarrow> s | Some u \<Rightarrow> u)"


text \<open>
  A path matches the pattern \<^verbatim>\<open>/name\<close> when what follows its first byte is one element
  that unescapes to the name.
\<close>

definition matches_segment :: "string \<Rightarrow> string \<Rightarrow> bool" where
  "matches_segment p name =
     (p \<noteq> [] \<and> CHR ''/'' \<notin> set (tl p) \<and> pathUnescape (tl p) = name)"

text \<open>
  \<^verbatim>\<open>http.Redirect\<close> with status 301: the location, and an HTML content type when the
  request is a GET or a HEAD.
\<close>

definition redirect :: "request \<Rightarrow> string \<Rightarrow> response" where
  "redirect r target =
     \<lparr>status = 301,
      content_type =
        (if rmethod r = ''GET'' \<or> rmethod r = ''HEAD'' then Some ''text/html; charset=utf-8''
         else None),
      payload = RedirectTo target (rrawquery r)\<rparr>"

text \<open>The handler the mux finds for a path; only the empty path matches no pattern.\<close>

definition dispatch :: "env \<Rightarrow> state \<Rightarrow> request \<Rightarrow> string \<Rightarrow> result" where
  "dispatch e st r p =
     (if matches_segment p ''search'' then searchHandler e st r
      else if matches_segment p ''insert'' then insertHandler e st r
      else if p \<noteq> [] then heartbeatHandler st r
      else respond st [] (http_error (Msg ''404 page not found'') 404))"

definition serve :: "env \<Rightarrow> state \<Rightarrow> request \<Rightarrow> result" where
  "serve e st r =
     (if rpath r = ''*'' then
        (if rmethod r = ''OPTIONS'' then
           respond st [] \<lparr>status = 200, content_type = None, payload = Bytes []\<rparr>
         else respond st [] \<lparr>status = 400, content_type = None, payload = Bytes []\<rparr>)
      else if rmethod r = ''CONNECT'' then
        (if rpath r = [] then respond st [] (redirect r (cleanPath (rpath r) @ ''/''))
         else dispatch e st r (rpath r))
      else if cleanPath (rpath r) \<noteq> rpath r then
        respond st [] (redirect r (cleanPath (rpath r)))
      else dispatch e st r (rpath r))"

section \<open>Start-up\<close>

text \<open>
  What the process finds when it starts: the results of loading \<^verbatim>\<open>.env\<close>, of reading the
  API key, of \<^verbatim>\<open>sql.Open\<close>, of \<^verbatim>\<open>os.Stat(".index")\<close>, of \<^verbatim>\<open>bleve.New\<close> and \<^verbatim>\<open>bleve.Open\<close>,
  of the \<^verbatim>\<open>SELECT\<close>, the rows of the table in the order the query yields them (each with
  the result of its \<^verbatim>\<open>Scan\<close> and the collaborators' answers while it is processed), the
  value of \<^verbatim>\<open>rows.Err()\<close> after the last row, and the result of \<^verbatim>\<open>ListenAndServe\<close>.
\<close>

record row =
  row_id :: int
  row_content :: string
  scan_error :: "string option"
  row_env :: env

record boot =
  dotenv_error :: "string option"
  openai_api_key :: string
  sql_open_error :: "string option"
  index_missing :: bool
  bleve_new_error :: "string option"
  bleve_open :: "string + (string \<rightharpoonup> string)"
  query_error :: "string option"
  rows :: "row list"
  rows_error :: "string option"
  listen_error :: "string option"

datatype startup = Fatal goerr | Crashed | Serving state

text \<open>The loop of \<^verbatim>\<open>createIndexFromDatabase\<close>: scan, normalize, index, next row.\<close>

fun replay_rows ::
  "row list \<Rightarrow> (string \<rightharpoonup> string) \<Rightarrow> (failure + (string \<rightharpoonup> string)) \<times> event list" where
  "replay_rows [] m = (Inr m, [])"
| "replay_rows (r # rs) m =
     (case scan_error r of
        Some msg \<Rightarrow> (Inl (Error (Wrapped ''Failed to scan row: '' (Msg msg))), [])
      | None \<Rightarrow>
          (case getMorphologicalAnalysis (row_env r) (row_content r) of
             Inl Panic \<Rightarrow> (Inl Panic, [EvChat (analysis_prompt (row_content r))])
           | Inl (Error err) \<Rightarrow>
               (Inl (Error (Wrapped ''Failed to analyze text: '' err)),
                [EvChat (analysis_prompt (row_content r))])
           | Inr analysis \<Rightarrow>
               (case index_write (row_env r) (Itoa (row_id r)) analysis of
                  Some msg \<Rightarrow>
                    (Inl (Error (Wrapped ''Failed to index data: '' (Msg msg))),
                     [EvChat (analysis_prompt (row_content r)),
                      EvIndexWrite (Itoa (row_id r)) analysis (Some msg)])
                | None \<Rightarrow>
                    (case replay_rows rs (m(Itoa (row_id r) \<mapsto> analysis)) of
                       (res, evs) \<Rightarrow>
                         (res,
                          EvChat (analysis_prompt (row_content r))
                          # EvIndexWrite (Itoa (row_id r)) analysis None # evs)))))"

definition createIndexFromDatabase ::
  "boot \<Rightarrow> (string \<rightharpoonup> string) \<Rightarrow> (failure + (string \<rightharpoonup> string)) \<times> event list" where
  "createIndexFromDatabase b m =
     (case query_error b of
        Some msg \<Rightarrow>
          (Inl (Error (Wrapped ''Failed to query documents: '' (Msg msg))), [EvQuery])
      | None \<Rightarrow>
          (case replay_rows (rows b) m of
             (Inl f, evs) \<Rightarrow> (Inl f, EvQuery # evs)
           | (Inr m', evs) \<Rightarrow>
               (case rows_error b of
                  Some msg \<Rightarrow>
                    (Inl (Error (Wrapped ''Error iterating over rows: '' (Msg msg))), EvQuery # evs)
                | None \<Rightarrow> (Inr m', EvQuery # evs))))"

text \<open>
  The end of \<^verbatim>\<open>main\<close>: the handlers are registered and \<^verbatim>\<open>ListenAndServe\<close> is called; only
  from here on is a request served.
\<close>

definition listenAndServe ::
  "boot \<Rightarrow> (string \<rightharpoonup> string) \<Rightarrow> event list \<Rightarrow> startup \<times> event list" where
  "listenAndServe b m evs =
     (case listen_error b of
        Some msg \<Rightarrow> (Fatal (Wrapped ''Failed to start server: '' (Msg msg)), evs @ [EvListen])
      | None \<Rightarrow>
          (Serving \<lparr>documents = map (\<lambda>r. (row_id r, row_content r)) (rows b), index = Some m\<rparr>,
           evs @ [EvListen]))"

definition main :: "boot \<Rightarrow> startup \<times> event list" where
  "main b =
     (case dotenv_error b of
        Some msg \<Rightarrow> (Fatal (Wrapped ''Error loading .env file: '' (Msg msg)), [])
      | None \<Rightarrow>
          if openai_api_key b = [] then
            (Fatal (Msg ''OPENAI_API_KEY environment variable is not set''), [])
          else
            (case sql_open_error b of
               Some msg \<Rightarrow>
                 (Fatal (Wrapped ''Failed to connect to PostgreSQL: '' (Msg msg)), [])
             | None \<Rightarrow>
                 if index_missing b then
                   (case bleve_new_error b of
                      Some msg \<Rightarrow> (Fatal (Wrapped ''Failed to create index: '' (Msg msg)), [])
                    | None \<Rightarrow>
                        (case createIndexFromDatabase b Map.empty of
                           (Inl Panic, evs) \<Rightarrow> (Crashed, EvIndexCreated # evs)
                         | (Inl (Error err), evs) \<Rightarrow>
                             (Fatal (Wrapped ''Failed to create index from database: '' err),
                              EvIndexCreated # evs)
                         | (Inr m, evs) \<Rightarrow> listenAndServe b m (EvIndexCreated # evs)))
                 else
                   (case bleve_open b of
                      Inl msg \<Rightarrow> (Fatal (Wrapped ''Failed to open index: '' (Msg msg)), [])
                    | Inr m \<Rightarrow> listenAndServe b m [EvIndexOpened])))"

text \<open>The states in which requests are served: after a start-up, and after each request.\<close>

inductive reachable :: "state \<Rightarrow> bool" where
  boot: "fst (main b) = Serving st \<Longrightarrow> reachable st"
| step: "reachable st \<Longrightarrow> reachable (post (serve e st r))"

text \<open>The successful index writes among a sequence of calls, and the index they build.\<close>

fun index_writes :: "event list \<Rightarrow> (string \<times> string) list" where
  "index_writes [] = []"
| "index_writes (EvIndexWrite i c None # evs) = (i, c) # index_writes evs"
| "index_writes (ev # evs) = index_writes evs"

definition apply_writes ::
  "(string \<times> string) list \<Rightarrow> (string \<rightharpoonup> string) \<Rightarrow> (string \<rightharpoonup> string)" where
  "apply_writes ws m = fold (\<lambda>w acc. acc(fst w \<mapsto> snd w)) ws m"

text \<open>A row replays without error: its scan, its normalization and its index write succeed.\<close>

definition row_ok :: "row \<Rightarrow> bool" where
  "row_ok r =
     (scan_error r = None \<and>
      (case getMorphologicalAnalysis (row_env r) (row_content r) of
         Inl f \<Rightarrow> False
       | Inr analysis \<Rightarrow> index_write (row_env r) (Itoa (row_id r)) analysis = None))"


definition is_write :: "event \<Rightarrow> bool" where
  "is_write ev =
     (case ev of EvStoreInsert c res \<Rightarrow> True | EvIndexWrite i c res \<Rightarrow> True | _ \<Rightarrow> False)"

section \<open>Sample inputs\<close>

text \<open>A world in which every collaborator answers, and variations of it.\<close>

definition fox_env :: env where
  "fox_env =
     \<lparr>chat = (\<lambda>prompt. Inr [Wellformed (JArray [JString ''quick'', JString ''fox''])]),
      db_insert = (\<lambda>content. Inr 7),
      index_write = (\<lambda>i content. None),
      index_search = (\<lambda>m q. Inr (SearchResult [])),
      encode_error = (\<lambda>res. None)\<rparr>"

definition split_env :: env where
  "split_env =
     fox_env\<lparr>chat :=
       (\<lambda>prompt. Inr [Wellformed (JArray [JString ''quick'', JString ''f'', JString ''ox''])])\<rparr>"

definition silent_env :: env where
  "silent_env = fox_env\<lparr>chat := (\<lambda>prompt. Inl ''context deadline exceeded'')\<rparr>"

definition mute_env :: env where
  "mute_env = fox_env\<lparr>chat := (\<lambda>prompt. Inr [])\<rparr>"

definition full_disk_env :: env where
  "full_disk_env = fox_env\<lparr>index_write := (\<lambda>i content. Some ''no space left on device'')\<rparr>"

definition cold_boot :: boot where
  "cold_boot =
     \<lparr>dotenv_error = None, openai_api_key = ''sk-test'', sql_open_error = None,
      index_missing = True, bleve_new_error = None, bleve_open = Inl ''no such index'',
      query_error = None,
      rows = [\<lparr>row_id = 1, row_content = ''[quick fox]'', scan_error = None, row_env = fox_env\<rparr>,
              \<lparr>row_id = 2, row_content = ''[lazy dog]'', scan_error = None, row_env = split_env\<rparr>],
      rows_error = None, listen_error = None\<rparr>"

definition broken_boot :: boot where
  "broken_boot = cold_boot\<lparr>rows_error := Some ''connection reset''\<rparr>"

definition cold_state :: state where
  "cold_state =
     \<lparr>documents = [(1, ''[quick fox]''), (2, ''[lazy dog]'')],
      index = Some [''1'' \<mapsto> ''[quick fox]'', ''2'' \<mapsto> ''[quick f ox]'']\<rparr>"

definition insert_fox :: request where
  "insert_fox =
     \<lparr>rmethod = ''POST'', rpath = ''/insert'', rquery = [], rrawquery = [],
      rbody = Wellformed (JObject [(''content'', JString ''the quick fox'')])\<rparr>"






definition search_nothing :: request where
  "search_nothing =
     \<lparr>rmethod = ''GET'', rpath = ''/search'', rquery = [(''q'', [])], rrawquery = ''q='',
      rbody = Malformed ''EOF''\<rparr>"


section \<open>Evaluating the samples\<close>


lemma decode_insert_fox: "decode_content (rbody insert_fox) = Inr ''the quick fox''"
  by (simp add: decode_content_def insert_fox_def names_content_def ascii_lower_def)


lemma fox_analysis: "getMorphologicalAnalysis fox_env text = Inr ''[quick fox]''"
  by (simp add: getMorphologicalAnalysis_def fox_env_def unmarshal_tokens_def sprint_tokens_def)

lemma full_disk_analysis: "getMorphologicalAnalysis full_disk_env text = Inr ''[quick fox]''"
  by (simp add: getMorphologicalAnalysis_def full_disk_env_def fox_env_def unmarshal_tokens_def
      sprint_tokens_def)

lemma split_analysis: "getMorphologicalAnalysis split_env text = Inr ''[quick f ox]''"
  by (simp add: getMorphologicalAnalysis_def fox_env_def split_env_def unmarshal_tokens_def
      sprint_tokens_def)

lemma silent_analysis:
  "getMorphologicalAnalysis silent_env text =
     Inl (Error (Wrapped ''OpenAI API request failed: '' (Msg ''context deadline exceeded'')))"
  by (simp add: getMorphologicalAnalysis_def fox_env_def silent_env_def)

lemma insert_fox_reply:
  "reply (insertHandler fox_env cold_state insert_fox) =
     Replied \<lparr>status = 201, content_type = None,
       payload = Bytes (''Document inserted with ID: '' @ Itoa 7)\<rparr>"
  by (simp add: insertHandler_def decode_insert_fox fox_analysis)
     (simp add: fox_env_def cold_state_def insert_fox_def respond_def)

lemma insert_fox_effects:
  "effects (insertHandler fox_env cold_state insert_fox) =
     [EvChat (analysis_prompt ''the quick fox''), EvStoreInsert ''[quick fox]'' (Inr 7),
      EvIndexWrite (Itoa 7) ''[quick fox]'' None, EvRespond 201]"
  by (simp add: insertHandler_def decode_insert_fox fox_analysis)
     (simp add: fox_env_def cold_state_def insert_fox_def respond_def)

lemma cold_boot_serves: "fst (main cold_boot) = Serving cold_state"
  by (simp add: main_def cold_boot_def createIndexFromDatabase_def listenAndServe_def
      cold_state_def getMorphologicalAnalysis_def fox_env_def split_env_def
      unmarshal_tokens_def sprint_tokens_def Itoa_def)
     (simp add: digits.simps)

section \<open>Ingestion\<close>

text \<open>
  C3. When \<^verbatim>\<open>insertHandler\<close> answers 201, it has made exactly these calls in this order:
  the normalizer, the store insert (which returned the identifier), the index write for
  that identifier (which succeeded), and only then the response, whose text names the
  same identifier. Afterwards the document is a row of the store and an entry of the
  index: a success is never reported for a document that is not durable and indexed.
\<close>

theorem success_reply_after_store_and_index:
  assumes "reply (insertHandler e st r) = Replied resp" and "status resp = 201"
  shows "\<exists>content analysis docid m.
     decode_content (rbody r) = Inr content \<and>
     getMorphologicalAnalysis e content = Inr analysis \<and>
     effects (insertHandler e st r) =
       [EvChat (analysis_prompt content), EvStoreInsert analysis (Inr docid),
        EvIndexWrite (Itoa docid) analysis None, EvRespond 201] \<and>
     payload resp = Bytes (''Document inserted with ID: '' @ Itoa docid) \<and>
     (docid, analysis) \<in> set (documents (post (insertHandler e st r))) \<and>
     index (post (insertHandler e st r)) = Some m \<and> m (Itoa docid) = Some analysis"
  using assms
  by (auto simp: insertHandler_def respond_def http_error_def Let_def
      split: if_splits sum.splits failure.splits option.splits)

theorem success_reply_after_store_and_index_witness:
  "\<exists>content analysis docid m.
     decode_content (rbody insert_fox) = Inr content \<and>
     getMorphologicalAnalysis fox_env content = Inr analysis \<and>
     effects (insertHandler fox_env cold_state insert_fox) =
       [EvChat (analysis_prompt content), EvStoreInsert analysis (Inr docid),
        EvIndexWrite (Itoa docid) analysis None, EvRespond 201] \<and>
     payload \<lparr>status = 201, content_type = None,
       payload = Bytes (''Document inserted with ID: '' @ Itoa 7)\<rparr> =
       Bytes (''Document inserted with ID: '' @ Itoa docid) \<and>
     (docid, analysis) \<in> set (documents (post (insertHandler fox_env cold_state insert_fox))) \<and>
     index (post (insertHandler fox_env cold_state insert_fox)) = Some m \<and>
     m (Itoa docid) = Some analysis"
  by (rule success_reply_after_store_and_index [OF insert_fox_reply]) simp

text \<open>
  What \<^verbatim>\<open>insertHandler\<close> does with the normalizer's output on a POST whose body decodes:
  it calls the store insert with that output; when the insert returns an identifier, the
  new row holds that output, and the index write is called for that identifier with the
  same output; when the index write succeeds, the index holds it under the identifier.
\<close>

lemma ingestion_carries_normalized_text:
  assumes "rmethod r = ''POST''"
    and "decode_content (rbody r) = Inr content"
    and "getMorphologicalAnalysis e content = Inr analysis"
  shows "EvStoreInsert analysis (db_insert e analysis) \<in> set (effects (insertHandler e st r))"
    and "db_insert e analysis = Inr docid \<Longrightarrow>
           documents (post (insertHandler e st r)) = documents st @ [(docid, analysis)]"
    and "db_insert e analysis = Inr docid \<Longrightarrow> index st = Some m \<Longrightarrow>
           EvIndexWrite (Itoa docid) analysis (index_write e (Itoa docid) analysis)
             \<in> set (effects (insertHandler e st r))"
    and "db_insert e analysis = Inr docid \<Longrightarrow> index st = Some m \<Longrightarrow>
           index_write e (Itoa docid) analysis = None \<Longrightarrow>
           index (post (insertHandler e st r)) = Some (m(Itoa docid \<mapsto> analysis))"
  using assms
  by (auto simp: insertHandler_def respond_def Let_def split: sum.splits option.splits)

text \<open>
  Every store insert and every index write that \<^verbatim>\<open>insertHandler\<close> attempts carries the
  normalizer's output, and when the normalizer returns an error the handler answers 500
  with it, having made no store or index call and leaving the state as it was.
\<close>

lemma ingestion_writes_only_normalized_text:
  "(\<forall>c res. EvStoreInsert c res \<in> set (effects (insertHandler e st r)) \<longrightarrow>
      (\<exists>content. decode_content (rbody r) = Inr content \<and>
                 getMorphologicalAnalysis e content = Inr c)) \<and>
   (\<forall>i c res. EvIndexWrite i c res \<in> set (effects (insertHandler e st r)) \<longrightarrow>
      (\<exists>content. decode_content (rbody r) = Inr content \<and>
                 getMorphologicalAnalysis e content = Inr c))"
  by (auto simp: insertHandler_def respond_def Let_def
      split: if_splits sum.splits failure.splits option.splits)

lemma normalizer_error_is_reported_before_any_write:
  assumes "rmethod r = ''POST''"
    and "decode_content (rbody r) = Inr content"
    and "getMorphologicalAnalysis e content = Inl (Error err)"
  shows "insertHandler e st r =
           respond st [EvChat (analysis_prompt content)]
             (http_error (Wrapped ''Failed to analyze text: '' err) 500)"
  using assms by (simp add: insertHandler_def)

text \<open>
  C4. The handler does store and index the normalizer's output, and it answers an error
  returned by the normalizer with status 500 before any write. One failure of the
  normalization is not answered with an error: when the chat service returns no choice,
  \<^verbatim>\<open>getMorphologicalAnalysis\<close> reads \<^verbatim>\<open>resp.Choices[0]\<close> of an empty slice and panics, and
  \<^verbatim>\<open>insertHandler\<close> ends without writing any response (no store or index write has been
  made).
\<close>

theorem empty_choices_panic_instead_of_error:
  "rmethod insert_fox = ''POST'' \<and>
   decode_content (rbody insert_fox) = Inr ''the quick fox'' \<and>
   chat mute_env (analysis_prompt ''the quick fox'') = Inr [] \<and>
   getMorphologicalAnalysis mute_env ''the quick fox'' = Inl Panic \<and>
   insertHandler mute_env cold_state insert_fox =
     \<lparr>reply = Panicked, effects = [EvChat (analysis_prompt ''the quick fox'')],
      post = cold_state\<rparr>"
proof -
  have chat: "chat mute_env (analysis_prompt ''the quick fox'') = Inr []"
    by (simp add: mute_env_def)
  then have norm: "getMorphologicalAnalysis mute_env ''the quick fox'' = Inl Panic"
    by (simp add: getMorphologicalAnalysis_def)
  have "rmethod insert_fox = ''POST''"
    by (simp add: insert_fox_def)
  with chat norm decode_insert_fox show ?thesis
    by (simp add: insertHandler_def)
qed

text \<open>
  C5. When the store insert succeeds and the index write then fails, \<^verbatim>\<open>insertHandler\<close>
  answers with status 500 and the index error; the new row stays in the store and the
  index is what it was.
\<close>

theorem index_failure_reported_store_kept:
  assumes "rmethod r = ''POST''"
    and "decode_content (rbody r) = Inr content"
    and "getMorphologicalAnalysis e content = Inr analysis"
    and "db_insert e analysis = Inr docid"
    and "index st = Some m"
    and "index_write e (Itoa docid) analysis = Some msg"
  shows "reply (insertHandler e st r) =
           Replied (http_error (Wrapped ''Failed to index data: '' (Msg msg)) 500) \<and>
         status (http_error (Wrapped ''Failed to index data: '' (Msg msg)) 500) = 500 \<and>
         documents (post (insertHandler e st r)) = documents st @ [(docid, analysis)] \<and>
         index (post (insertHandler e st r)) = index st"
  using assms by (simp add: insertHandler_def respond_def Let_def http_error_def)

theorem index_failure_reported_store_kept_witness:
  "reply (insertHandler full_disk_env cold_state insert_fox) =
     Replied (http_error (Wrapped ''Failed to index data: '' (Msg ''no space left on device'')) 500) \<and>
   status (http_error (Wrapped ''Failed to index data: '' (Msg ''no space left on device'')) 500) = 500 \<and>
   documents (post (insertHandler full_disk_env cold_state insert_fox)) =
     documents cold_state @ [(7, ''[quick fox]'')] \<and>
   index (post (insertHandler full_disk_env cold_state insert_fox)) = index cold_state"
  by (rule index_failure_reported_store_kept
        [where content = "''the quick fox''"
           and m = "[''1'' \<mapsto> ''[quick fox]'', ''2'' \<mapsto> ''[quick f ox]'']"])
     (simp_all add: decode_insert_fox full_disk_analysis,
      simp_all add: insert_fox_def full_disk_env_def fox_env_def cold_state_def)








section \<open>Search\<close>

lemma clean_search: "cleanPath ''/search'' = ''/search''"
  by (simp add: cleanPath_def path_Clean_def)

lemma insert_keeps_index: "index st \<noteq> None \<Longrightarrow> index (post (insertHandler e st r)) \<noteq> None"
  by (auto simp: insertHandler_def respond_def Let_def
      split: if_splits sum.splits failure.splits option.splits)

lemma search_keeps_state: "post (searchHandler e st r) = st"
  by (auto simp: searchHandler_def respond_def Let_def
      split: if_splits sum.splits option.splits)

lemma dispatch_keeps_index:
  "index st \<noteq> None \<Longrightarrow> index (post (dispatch e st r p)) \<noteq> None"
  using insert_keeps_index [of st e r]
  by (auto simp: dispatch_def respond_def heartbeatHandler_def search_keeps_state)

lemma serve_keeps_index: "index st \<noteq> None \<Longrightarrow> index (post (serve e st r)) \<noteq> None"
  using dispatch_keeps_index [of st e r]
  by (auto simp: serve_def respond_def)

lemma main_index: "fst (main b) = Serving st \<Longrightarrow> index st \<noteq> None"
  by (auto simp: main_def listenAndServe_def
      split: option.splits if_splits sum.splits prod.splits failure.splits)

lemma reachable_index: "reachable st \<Longrightarrow> index st \<noteq> None"
  by (induction rule: reachable.induct) (auto simp: main_index serve_keeps_index)

lemma query_get_missing: "\<forall>v. (key, v) \<notin> set q \<Longrightarrow> query_get q key = []"
  by (induction q) auto

text \<open>
  C7. In every state the server can be in (after a start-up and any number of requests),
  a request to \<^verbatim>\<open>/search\<close> whose \<^verbatim>\<open>q\<close> parameter is missing or empty is answered with status
  400 and the message that the parameter is missing; the engine is not asked and nothing
  changes.
\<close>

theorem empty_query_is_bad_request:
  assumes "reachable st"
    and "rpath r = ''/search''"
    and "(\<forall>v. (''q'', v) \<notin> set (rquery r)) \<or> query_get (rquery r) ''q'' = []"
  shows "serve e st r =
           respond st []
             (http_error (Msg (''Missing query parameter '' @ [CHR 0x27] @ ''q'' @ [CHR 0x27]))
                400) \<and>
         (\<exists>resp. reply (serve e st r) = Replied resp \<and> status resp = 400)"
proof -
  from assms(1) obtain m where m: "index st = Some m"
    using reachable_index by blast
  from assms(3) have q: "query_get (rquery r) ''q'' = []"
    using query_get_missing by blast
  show ?thesis
    by (simp add: serve_def dispatch_def matches_segment_def pathUnescape_def assms(2)
        clean_search searchHandler_def m q respond_def http_error_def)
qed

theorem empty_query_is_bad_request_witness:
  "serve fox_env cold_state search_nothing =
     respond cold_state []
       (http_error (Msg (''Missing query parameter '' @ [CHR 0x27] @ ''q'' @ [CHR 0x27])) 400) \<and>
   (\<exists>resp. reply (serve fox_env cold_state search_nothing) = Replied resp \<and> status resp = 400)"
proof -
  have "reachable cold_state"
    using cold_boot_serves by (rule reachable.boot)
  moreover have "rpath search_nothing = ''/search''"
    and "query_get (rquery search_nothing) ''q'' = []"
    by (simp_all add: search_nothing_def)
  ultimately show ?thesis
    using empty_query_is_bad_request [of cold_state search_nothing fox_env] by blast
qed

lemma search_forwards_engine_result:
  assumes "index st = Some m" and "query_get (rquery r) ''q'' \<noteq> []"
    and "index_search e m (query_get (rquery r) ''q'') = Inr res" and "encode_error e res = None"
  shows "reply (searchHandler e st r) =
           Replied \<lparr>status = 200, content_type = Some ''application/json'',
                    payload = SearchResultJson res\<rparr>"
  using assms by (simp add: searchHandler_def respond_def)

section \<open>Start-up\<close>

lemma apply_writes_Nil: "apply_writes [] m = m"
  by (simp add: apply_writes_def)

lemma apply_writes_Cons: "apply_writes ((i, c) # ws) m = apply_writes ws (m(i \<mapsto> c))"
  by (simp add: apply_writes_def)

lemma replay_rows_ok:
  "replay_rows rs m = (Inr m', evs) \<Longrightarrow>
     (\<forall>r \<in> set rs. row_ok r) \<and>
     EvListen \<notin> set evs \<and>
     list_all2 (\<lambda>r w. fst w = Itoa (row_id r) \<and>
        getMorphologicalAnalysis (row_env r) (row_content r) = Inr (snd w)) rs (index_writes evs) \<and>
     m' = apply_writes (index_writes evs) m"
proof (induction rs arbitrary: m evs)
  case Nil
  then show ?case by (simp add: apply_writes_Nil)
next
  case (Cons r rs)
  from Cons.prems obtain analysis evs' where
    scan: "scan_error r = None"
    and an: "getMorphologicalAnalysis (row_env r) (row_content r) = Inr analysis"
    and wr: "index_write (row_env r) (Itoa (row_id r)) analysis = None"
    and rest: "replay_rows rs (m(Itoa (row_id r) \<mapsto> analysis)) = (Inr m', evs')"
    and evs: "evs = EvChat (analysis_prompt (row_content r))
                # EvIndexWrite (Itoa (row_id r)) analysis None # evs'"
    by (auto split: option.splits sum.splits failure.splits prod.splits)
  from Cons.IH [OF rest] scan an wr evs show ?case
    by (simp add: row_ok_def apply_writes_Cons fun_upd_def)
qed

text \<open>
  C2. When \<^verbatim>\<open>os.Stat\<close> reports that \<^verbatim>\<open>.index\<close> does not exist and the process comes to
  serve, then the query, every scan, every normalization, every index write and the
  final \<^verbatim>\<open>rows.Err()\<close> succeeded; the process created the index, then wrote one entry per
  row of the store (under the row's identifier, with the normalizer's output for the
  row's content), in the order of the rows, and only then called \<^verbatim>\<open>ListenAndServe\<close>; the
  index it serves is the empty index with these writes applied. If anything in the replay
  fails, the process does not serve: it ends in \<^verbatim>\<open>log.Fatalf\<close> or a panic.
\<close>

theorem startup_replays_store_before_serving:
  assumes "index_missing b"
  shows "(\<forall>st. fst (main b) = Serving st \<longrightarrow>
      query_error b = None \<and> rows_error b = None \<and> (\<forall>r \<in> set (rows b). row_ok r) \<and>
      (\<exists>pre. snd (main b) = EvIndexCreated # EvQuery # pre @ [EvListen] \<and>
         EvListen \<notin> set pre \<and>
         list_all2 (\<lambda>r w. fst w = Itoa (row_id r) \<and>
            getMorphologicalAnalysis (row_env r) (row_content r) = Inr (snd w))
           (rows b) (index_writes pre) \<and>
         index st = Some (apply_writes (index_writes pre) Map.empty))) \<and>
    (query_error b \<noteq> None \<or> rows_error b \<noteq> None \<or> (\<exists>r \<in> set (rows b). \<not> row_ok r) \<longrightarrow>
      fst (main b) = Crashed \<or> (\<exists>err. fst (main b) = Fatal err))"
proof -
  have served: "query_error b = None \<and> rows_error b = None \<and> (\<forall>r \<in> set (rows b). row_ok r) \<and>
      (\<exists>pre. snd (main b) = EvIndexCreated # EvQuery # pre @ [EvListen] \<and>
         EvListen \<notin> set pre \<and>
         list_all2 (\<lambda>r w. fst w = Itoa (row_id r) \<and>
            getMorphologicalAnalysis (row_env r) (row_content r) = Inr (snd w))
           (rows b) (index_writes pre) \<and>
         index st = Some (apply_writes (index_writes pre) Map.empty))"
    if s: "fst (main b) = Serving st" for st
  proof -
    from assms s obtain m evs where
      q: "query_error b = None" and re: "rows_error b = None"
      and rp: "replay_rows (rows b) Map.empty = (Inr m, evs)"
      and tr: "snd (main b) = EvIndexCreated # EvQuery # evs @ [EvListen]"
      and ix: "index st = Some m"
      by (auto simp: main_def createIndexFromDatabase_def listenAndServe_def
          split: option.splits if_splits sum.splits prod.splits failure.splits)
    from replay_rows_ok [OF rp] q re tr ix show ?thesis
      by auto
  qed
  have fatal: "fst (main b) = Crashed \<or> (\<exists>err. fst (main b) = Fatal err)"
    if e: "query_error b \<noteq> None \<or> rows_error b \<noteq> None \<or> (\<exists>r \<in> set (rows b). \<not> row_ok r)"
  proof (cases "fst (main b)")
    case (Serving st)
    from served [OF this] e show ?thesis by blast
  qed simp_all
  from served fatal show ?thesis by blast
qed

lemma broken_boot_fatal:
  "fst (main broken_boot) =
     Fatal (Wrapped ''Failed to create index from database: ''
       (Wrapped ''Error iterating over rows: '' (Msg ''connection reset'')))"
  by (simp add: main_def broken_boot_def cold_boot_def createIndexFromDatabase_def
      getMorphologicalAnalysis_def fox_env_def split_env_def
      unmarshal_tokens_def sprint_tokens_def)

theorem startup_replays_store_before_serving_witness:
  "query_error cold_boot = None \<and> rows_error cold_boot = None \<and>
   list_all row_ok (rows cold_boot) \<and>
    (\<exists>pre. snd (main cold_boot) = EvIndexCreated # EvQuery # pre @ [EvListen] \<and>
       EvListen \<notin> set pre \<and>
       list_all2 (\<lambda>r w. fst w = Itoa (row_id r) \<and>
          getMorphologicalAnalysis (row_env r) (row_content r) = Inr (snd w))
         (rows cold_boot) (index_writes pre) \<and>
       index cold_state = Some (apply_writes (index_writes pre) Map.empty)) \<and>
   (fst (main broken_boot) = Crashed \<or> (\<exists>err. fst (main broken_boot) = Fatal err))"
proof -
  have "index_missing cold_boot"
    by (simp add: cold_boot_def)
  from startup_replays_store_before_serving [OF this] cold_boot_serves
  have 1: "query_error cold_boot = None \<and> rows_error cold_boot = None \<and>
      (\<forall>r \<in> set (rows cold_boot). row_ok r) \<and>
      (\<exists>pre. snd (main cold_boot) = EvIndexCreated # EvQuery # pre @ [EvListen] \<and>
         EvListen \<notin> set pre \<and>
         list_all2 (\<lambda>r w. fst w = Itoa (row_id r) \<and>
            getMorphologicalAnalysis (row_env r) (row_content r) = Inr (snd w))
           (rows cold_boot) (index_writes pre) \<and>
         index cold_state = Some (apply_writes (index_writes pre) Map.empty))"
    by blast
  have "index_missing broken_boot" and "rows_error broken_boot \<noteq> None"
    by (simp_all add: broken_boot_def cold_boot_def)
  with startup_replays_store_before_serving [of broken_boot]
  have "fst (main broken_boot) = Crashed \<or> (\<exists>err. fst (main broken_boot) = Fatal err)"
    by blast
  with 1 show ?thesis
    by (simp add: list_all_iff)
qed

section \<open>The normalizer's dependence on the chat service\<close>

text \<open>
  C9, as the code has it. \<^verbatim>\<open>getMorphologicalAnalysis\<close> keeps no state of its own, but its
  output is decided by the remote chat service: two calls with the same text that get the
  same answer to their prompt return the same result.
\<close>

theorem normalizer_determined_by_service_reply:
  assumes "chat e1 (analysis_prompt text) = chat e2 (analysis_prompt text)"
  shows "getMorphologicalAnalysis e1 text = getMorphologicalAnalysis e2 text"
  using assms by (simp add: getMorphologicalAnalysis_def)


theorem normalizer_determined_by_service_reply_witness:
  "getMorphologicalAnalysis fox_env ''the quick fox'' =
   getMorphologicalAnalysis full_disk_env ''the quick fox''"
  by (rule normalizer_determined_by_service_reply) (simp add: full_disk_env_def)

text \<open>
  The claim as the specification states it fails: for the same input text the service may
  answer \<^verbatim>\<open>["quick","fox"]\<close> once and \<^verbatim>\<open>["quick","f","ox"]\<close> the next time, and the outputs
  differ.
\<close>

theorem normalizer_output_varies_with_service:
  "getMorphologicalAnalysis fox_env ''the quick fox'' \<noteq>
   getMorphologicalAnalysis split_env ''the quick fox''"
  by (simp add: fox_analysis split_analysis)

section \<open>The catch-all route\<close>














end
